theory Spec2Isabelle
  imports Main
begin

section \<open>Messages, conversation state, exceptions\<close>

text \<open>
  The message classes that \<^verbatim>\<open>graph.py\<close> imports: \<^verbatim>\<open>HumanMessage\<close>, \<^verbatim>\<open>AIMessage\<close>,
  \<^verbatim>\<open>SystemMessage\<close> and \<^verbatim>\<open>RemoveMessage\<close>. A message carries its class, its content and
  its id; a message built without an id (\<^verbatim>\<open>HumanMessage(content=...)\<close>) has none until
  it passes the reducer of the message channel.
\<close>

datatype role = Human | AI | System | Remove

record message =
  role :: role
  content :: string
  msg_id :: "string option"

definition HumanMessage :: "string \<Rightarrow> message" where
  "HumanMessage c = \<lparr>role = Human, content = c, msg_id = None\<rparr>"

definition SystemMessage :: "string \<Rightarrow> message" where
  "SystemMessage c = \<lparr>role = System, content = c, msg_id = None\<rparr>"

definition AIMessage :: "string \<Rightarrow> string option \<Rightarrow> message" where
  "AIMessage c i = \<lparr>role = AI, content = c, msg_id = i\<rparr>"

definition RemoveMessage :: "string option \<Rightarrow> message" where
  "RemoveMessage i = \<lparr>role = Remove, content = [], msg_id = i\<rparr>"

text \<open>
  \<^verbatim>\<open>class State(MessagesState): summary: Optional[str] = None\<close>. The channel
  \<^verbatim>\<open>summary\<close> holds no value until a node writes it (\<open>None\<close> here), which is why the
  nodes read it with \<^verbatim>\<open>state.get("summary", "")\<close>.
\<close>

record state =
  messages :: "message list"
  summary :: "string option"

text \<open>A Python exception: the name of its class and the text \<^verbatim>\<open>str(e)\<close> gives.\<close>

datatype exn = Exception string string

fun str_exn :: "exn \<Rightarrow> string" where
  "str_exn (Exception cls msg) = msg"

text \<open>
  The completion oracle (\<^verbatim>\<open>model.invoke\<close> of the hosted chat model): opaque. It is
  given the ordered prompt and either raises or returns the generated text with the
  id the provider's wrapper gave the reply; \<^verbatim>\<open>model.invoke\<close> wraps both into an
  \<^verbatim>\<open>AIMessage\<close>.
\<close>

type_synonym completion_oracle = "message list \<Rightarrow> exn + string \<times> string option"

definition model_invoke :: "completion_oracle \<Rightarrow> message list \<Rightarrow> exn + message" where
  "model_invoke model prompt =
     (case model prompt of
        Inl e \<Rightarrow> Inl e
      | Inr (reply, rid) \<Rightarrow> Inr (AIMessage reply rid))"

section \<open>The reducer of the message channel\<close>

text \<open>
  \<^verbatim>\<open>MessagesState\<close> declares \<^verbatim>\<open>messages\<close> with the reducer \<^verbatim>\<open>add_messages\<close> of the
  orchestration library, which \<^verbatim>\<open>graph.py\<close> imports; its code is not part of the
  repository. It is modelled here after its documented behaviour:
  \<^item> every message without an id is given a fresh random one (\<^verbatim>\<open>uuid4\<close>); the
    identifiers drawn are a parameter of the model, \<open>uuid4 k\<close> being the \<open>k\<close>-th draw
    of the call;
  \<^item> the update is merged into the stored list by id: a \<^verbatim>\<open>RemoveMessage\<close> whose id is
    stored marks that id for removal, and one whose id is unknown raises
    \<^verbatim>\<open>ValueError\<close>; any other message replaces the stored message of the same id in
    place, or is appended when its id is new;
  \<^item> the marked ids are filtered out at the end.
\<close>

fun assign_ids :: "(nat \<Rightarrow> string) \<Rightarrow> nat \<Rightarrow> message list \<Rightarrow> message list \<times> nat" where
  "assign_ids uuid4 k [] = ([], k)"
| "assign_ids uuid4 k (m # ms) =
     (case msg_id m of
        Some i \<Rightarrow> (case assign_ids uuid4 k ms of (ms', k') \<Rightarrow> (m # ms', k'))
      | None \<Rightarrow>
          (case assign_ids uuid4 (Suc k) ms of
             (ms', k') \<Rightarrow> (m\<lparr>msg_id := Some (uuid4 k)\<rparr> # ms', k')))"

text \<open>
  \<^verbatim>\<open>merged_by_id = {m.id: i for i, m in enumerate(merged)}\<close>: the index stored for
  an id is that of its last occurrence.
\<close>

fun merged_by_id :: "message list \<Rightarrow> string option \<Rightarrow> nat option" where
  "merged_by_id [] i = None"
| "merged_by_id (m # ms) i =
     (case merged_by_id ms i of
        Some k \<Rightarrow> Some (Suc k)
      | None \<Rightarrow> if msg_id m = i then Some 0 else None)"

definition missing_id_error :: "string option \<Rightarrow> exn" where
  "missing_id_error i =
     Exception ''ValueError''
       (''Attempting to delete a message with an ID that doesn'' @ [CHR 0x27] @ ''t exist (''
          @ [CHR 0x27] @ (case i of None \<Rightarrow> ''None'' | Some s \<Rightarrow> s) @ [CHR 0x27] @ '')'')"

fun merge_loop ::
  "message list \<Rightarrow> string option list \<Rightarrow> message list \<Rightarrow> exn + message list \<times> string option list"
where
  "merge_loop merged ids_to_remove [] = Inr (merged, ids_to_remove)"
| "merge_loop merged ids_to_remove (m # right) =
     (case merged_by_id merged (msg_id m) of
        Some existing_idx \<Rightarrow>
          (if role m = Remove then merge_loop merged (msg_id m # ids_to_remove) right
           else merge_loop (merged[existing_idx := m]) (removeAll (msg_id m) ids_to_remove) right)
      | None \<Rightarrow>
          (if role m = Remove then Inl (missing_id_error (msg_id m))
           else merge_loop (merged @ [m]) ids_to_remove right))"

definition add_messages ::
  "(nat \<Rightarrow> string) \<Rightarrow> message list \<Rightarrow> message list \<Rightarrow> exn + message list"
where
  "add_messages uuid4 left right =
     (case assign_ids uuid4 0 left of
        (left', k) \<Rightarrow>
          (case assign_ids uuid4 k right of
             (right', k') \<Rightarrow>
               (case merge_loop left' [] right' of
                  Inl e \<Rightarrow> Inl e
                | Inr (merged, ids_to_remove) \<Rightarrow>
                    Inr (filter (\<lambda>m. msg_id m \<notin> set ids_to_remove) merged))))"

section \<open>The nodes of graph.py\<close>

text \<open>
  A node returns a partial state: both nodes write \<^verbatim>\<open>messages\<close> (through the reducer),
  only \<^verbatim>\<open>summarize_conversation\<close> writes \<^verbatim>\<open>summary\<close> (a plain channel: the value
  written replaces the old one).
\<close>

record update =
  upd_messages :: "message list"
  upd_summary :: "string option"

text \<open>\<^verbatim>\<open>state.get("summary", "")\<close>\<close>

definition get_summary :: "state \<Rightarrow> string" where
  "get_summary st = (case summary st of None \<Rightarrow> [] | Some s \<Rightarrow> s)"

text \<open>
  \<^verbatim>\<open>call_model\<close>, lines 38 to 48. The prompt it builds is named on its own;
  \<^verbatim>\<open>if summary:\<close> is Python's truth of a string: not empty.
\<close>

definition call_model_prompt :: "state \<Rightarrow> message list" where
  "call_model_prompt st =
     (if get_summary st \<noteq> []
      then [SystemMessage (''Summary of conversation earlier: '' @ get_summary st)] @ messages st
      else messages st)"

definition call_model :: "completion_oracle \<Rightarrow> state \<Rightarrow> exn + update" where
  "call_model model st =
     (case model_invoke model (call_model_prompt st) of
        Inl e \<Rightarrow> Inl e
      | Inr response \<Rightarrow> Inr \<lparr>upd_messages = [response], upd_summary = None\<rparr>)"

text \<open>The names of the graph's nodes, with the library's \<^verbatim>\<open>START\<close> and \<^verbatim>\<open>END\<close>.\<close>

datatype node = START | Conversation | Summarize_conversation | END

text \<open>\<^verbatim>\<open>should_continue\<close>, lines 51 to 55.\<close>

definition should_continue :: "state \<Rightarrow> node" where
  "should_continue st =
     (if length (messages st) > 6 then Summarize_conversation else END)"

text \<open>
  \<^verbatim>\<open>summarize_conversation\<close>, lines 57 to 71. \<^verbatim>\<open>state["messages"][:-2]\<close> is all but the
  last two messages, and nothing when there are fewer than two.
\<close>

definition summary_message :: "state \<Rightarrow> string" where
  "summary_message st =
     (if get_summary st \<noteq> []
      then ''This is summary of the conversation to date: '' @ get_summary st
             @ [CHR 0x0A, CHR 0x0A]
             @ ''Extend the summary by taking into account the new messages above:''
      else ''Create a summary of the conversation above:'')"

definition summarize_prompt :: "state \<Rightarrow> message list" where
  "summarize_prompt st = messages st @ [HumanMessage (summary_message st)]"

definition delete_messages :: "state \<Rightarrow> message list" where
  "delete_messages st =
     map (\<lambda>m. RemoveMessage (msg_id m)) (take (length (messages st) - 2) (messages st))"

definition summarize_conversation :: "completion_oracle \<Rightarrow> state \<Rightarrow> exn + update" where
  "summarize_conversation model st =
     (case model_invoke model (summarize_prompt st) of
        Inl e \<Rightarrow> Inl e
      | Inr response \<Rightarrow>
          Inr \<lparr>upd_messages = delete_messages st, upd_summary = Some (content response)\<rparr>)"

section \<open>The graph of get_graph and a run of it\<close>

text \<open>
  The service posts the messages of a request as dicts \<^verbatim>\<open>{"type": ..., "content": ...}\<close>
  (the pydantic model \<^verbatim>\<open>Message\<close> of \<^verbatim>\<open>server.py\<close>). The library coerces each dict to
  a message object by its type before the reducer sees it; a dict of these two keys is
  accepted for the types below and raises for any other.
\<close>

record wire_message =
  msg_type :: string
  msg_content :: string

definition convert_to_message :: "wire_message \<Rightarrow> exn + message" where
  "convert_to_message d =
     (if msg_type d = ''human'' \<or> msg_type d = ''user'' then Inr (HumanMessage (msg_content d))
      else if msg_type d = ''ai'' \<or> msg_type d = ''assistant''
        then Inr (AIMessage (msg_content d) None)
      else if msg_type d = ''system'' \<or> msg_type d = ''developer''
        then Inr (SystemMessage (msg_content d))
      else Inl (Exception ''ValueError'' (''Unexpected message type: '' @ msg_type d)))"

fun convert_to_messages :: "wire_message list \<Rightarrow> exn + message list" where
  "convert_to_messages [] = Inr []"
| "convert_to_messages (d # ds) =
     (case convert_to_message d of
        Inl e \<Rightarrow> Inl e
      | Inr m \<Rightarrow> (case convert_to_messages ds of Inl e \<Rightarrow> Inl e | Inr ms \<Rightarrow> Inr (m # ms)))"

text \<open>
  \<^verbatim>\<open>get_graph\<close>, lines 77 to 87: two nodes, the edge from \<^verbatim>\<open>START\<close> to
  \<^verbatim>\<open>conversation\<close>, the conditional edges of \<^verbatim>\<open>conversation\<close> (\<^verbatim>\<open>should_continue\<close>)
  and the edge from \<^verbatim>\<open>summarize_conversation\<close> to \<^verbatim>\<open>END\<close>. The library's \<^verbatim>\<open>START\<close>
  writes the input of the run to the state.
\<close>

datatype edge = Edge node | Conditional_edges "state \<Rightarrow> node"

fun get_graph_edges :: "node \<Rightarrow> edge" where
  "get_graph_edges START = Edge Conversation"
| "get_graph_edges Conversation = Conditional_edges should_continue"
| "get_graph_edges Summarize_conversation = Edge END"
| "get_graph_edges END = Edge END"

fun get_graph_nodes ::
  "wire_message list \<Rightarrow> node \<Rightarrow> completion_oracle \<Rightarrow> state \<Rightarrow> exn + update"
where
  "get_graph_nodes inp START model st =
     (case convert_to_messages inp of
        Inl e \<Rightarrow> Inl e
      | Inr ms \<Rightarrow> Inr \<lparr>upd_messages = ms, upd_summary = None\<rparr>)"
| "get_graph_nodes inp Conversation model st = call_model model st"
| "get_graph_nodes inp Summarize_conversation model st = summarize_conversation model st"
| "get_graph_nodes inp END model st = Inr \<lparr>upd_messages = [], upd_summary = None\<rparr>"

text \<open>The writes of a node are applied to the state, channel by channel.\<close>

definition apply_writes :: "(nat \<Rightarrow> string) \<Rightarrow> state \<Rightarrow> update \<Rightarrow> exn + state" where
  "apply_writes uuid4 st upd =
     (case add_messages uuid4 (messages st) (upd_messages upd) of
        Inl e \<Rightarrow> Inl e
      | Inr ms \<Rightarrow>
          Inr \<lparr>messages = ms,
               summary = (case upd_summary upd of None \<Rightarrow> summary st | Some s \<Rightarrow> Some s)\<rparr>)"

text \<open>
  The run of the compiled graph (\<^verbatim>\<open>compiled_graph.invoke\<close>), which belongs to the
  library and is modelled after its documented behaviour: the nodes run one per step
  (\<open>run_step\<close>: the node, then its writes), starting at \<^verbatim>\<open>START\<close>; after each step
  the resulting state is saved by the checkpointer (\<^verbatim>\<open>checkpointer=memory\<close>), and the edge
  that leaves the node names the next one, a conditional edge being evaluated on the
  state with the node's writes applied. A node that raises ends the run with its
  exception; the checkpoint then is the one saved after the last step that completed.
  A run of more than \<open>recursion_limit\<close> steps is ended by the library with an error.
  \<open>uuid4 step\<close> names the identifiers drawn by the reducer in that step.

  The events record what ran: \<open>Ran n\<close> for a node that was started, \<open>Routed n n'\<close>
  for an evaluation of the conditional edge of \<open>n\<close>, with its result.
\<close>

datatype event = Ran node | Routed node node

record run =
  outcome :: "exn + state"
  checkpoint :: state
  events :: "event list"

definition recursion_limit :: nat where
  "recursion_limit = 25"

definition recursion_error :: exn where
  "recursion_error =
     Exception ''GraphRecursionError'' ''Recursion limit reached without hitting a stop condition''"

definition run_step ::
  "(nat \<Rightarrow> string) \<Rightarrow> wire_message list \<Rightarrow> node \<Rightarrow> completion_oracle \<Rightarrow> state \<Rightarrow> exn + state"
where
  "run_step uuid4 inp n model st =
     (case get_graph_nodes inp n model st of
        Inl e \<Rightarrow> Inl e
      | Inr upd \<Rightarrow> apply_writes uuid4 st upd)"

fun pregel_loop ::
  "(nat \<Rightarrow> nat \<Rightarrow> string) \<Rightarrow> completion_oracle \<Rightarrow> wire_message list \<Rightarrow> nat \<Rightarrow> nat \<Rightarrow> node
     \<Rightarrow> state \<Rightarrow> event list \<Rightarrow> run"
where
  "pregel_loop uuid4 model inp 0 step n st evs =
     (if n = END then \<lparr>outcome = Inr st, checkpoint = st, events = evs\<rparr>
      else \<lparr>outcome = Inl recursion_error, checkpoint = st, events = evs\<rparr>)"
| "pregel_loop uuid4 model inp (Suc fuel) step n st evs =
     (if n = END then \<lparr>outcome = Inr st, checkpoint = st, events = evs\<rparr>
      else
        (case run_step (uuid4 step) inp n model st of
           Inl e \<Rightarrow> \<lparr>outcome = Inl e, checkpoint = st, events = evs @ [Ran n]\<rparr>
         | Inr st' \<Rightarrow>
             (case get_graph_edges n of
                Edge n' \<Rightarrow>
                  pregel_loop uuid4 model inp fuel (Suc step) n' st' (evs @ [Ran n])
              | Conditional_edges path \<Rightarrow>
                  pregel_loop uuid4 model inp fuel (Suc step) (path st') st'
                    (evs @ [Ran n, Routed n (path st')]))))"

text \<open>
  The persistence collaborator (\<^verbatim>\<open>memory = MemorySaver()\<close>): the saved state of each
  thread id. A thread that has no saved state starts from the empty one.
\<close>

type_synonym store = "string \<Rightarrow> state option"

definition empty_state :: state where
  "empty_state = \<lparr>messages = [], summary = None\<rparr>"

record invocation =
  returned :: "exn + state"
  store_after :: store
  trace :: "event list"

definition compiled_graph_invoke ::
  "(nat \<Rightarrow> nat \<Rightarrow> string) \<Rightarrow> completion_oracle \<Rightarrow> store \<Rightarrow> string \<Rightarrow> wire_message list
     \<Rightarrow> invocation"
where
  "compiled_graph_invoke uuid4 model saved tid inp =
     (let st0 = (case saved tid of None \<Rightarrow> empty_state | Some st \<Rightarrow> st);
          r = pregel_loop uuid4 model inp recursion_limit 0 START st0 []
      in \<lparr>returned = outcome r,
          store_after = saved(tid \<mapsto> checkpoint r),
          trace = events r\<rparr>)"

section \<open>The service of server.py\<close>

text \<open>
  \<^verbatim>\<open>_serialize_message(msg: Any)\<close>, lines 74 to 96, looks at three things of its
  argument: whether it has an attribute \<^verbatim>\<open>content\<close> (and then the name of its class),
  whether it is a \<^verbatim>\<open>dict\<close>, and the text \<^verbatim>\<open>str\<close> gives for a value. A Python value
  is a \<^verbatim>\<open>str\<close> or is described by the text \<^verbatim>\<open>str\<close> gives for it; the argument is an
  object with a \<^verbatim>\<open>content\<close> attribute (the name of its class, the attribute's value),
  a \<^verbatim>\<open>dict\<close> (its items) or any other value.
\<close>

datatype pyval = Str string | Other string

fun py_str :: "pyval \<Rightarrow> string" where
  "py_str (Str s) = s"
| "py_str (Other s) = s"

datatype pyarg =
    Object string pyval
  | Dict "(string \<times> pyval) list"
  | Plain pyval

text \<open>The dict it returns: the values under \<^verbatim>\<open>"type"\<close> and \<^verbatim>\<open>"content"\<close>.\<close>

record serialized =
  type_field :: pyval
  content_field :: string

definition serialize_message :: "pyarg \<Rightarrow> serialized" where
  "serialize_message msg =
     (case msg of
        Object msg_type_name c \<Rightarrow>
          (if msg_type_name = ''AIMessage''
             then \<lparr>type_field = Str ''ai'', content_field = py_str c\<rparr>
           else if msg_type_name = ''HumanMessage''
             then \<lparr>type_field = Str ''human'', content_field = py_str c\<rparr>
           else \<lparr>type_field = Str ''human'', content_field = py_str c\<rparr>)
      | Dict items \<Rightarrow>
          \<lparr>type_field = (case map_of items ''type'' of None \<Rightarrow> Str ''human'' | Some t \<Rightarrow> t),
           content_field = py_str (case map_of items ''content'' of None \<Rightarrow> Str [] | Some c \<Rightarrow> c)\<rparr>
      | Plain v \<Rightarrow> \<lparr>type_field = Str ''human'', content_field = py_str v\<rparr>)"

definition serialize_messages :: "pyarg list \<Rightarrow> serialized list" where
  "serialize_messages msgs = map serialize_message msgs"

text \<open>A message of the graph's state, as the Python object the service is handed.\<close>

fun class_name :: "role \<Rightarrow> string" where
  "class_name Human = ''HumanMessage''"
| "class_name AI = ''AIMessage''"
| "class_name System = ''SystemMessage''"
| "class_name Remove = ''RemoveMessage''"

definition message_object :: "message \<Rightarrow> pyarg" where
  "message_object m = Object (class_name (role m)) (Str (content m))"

datatype http_error = HTTPException nat string

text \<open>
  \<^verbatim>\<open>invoke\<close>, lines 114 to 124, for a request whose config names the thread id.
  \<^verbatim>\<open>resp.get("state", {})\<close> is the empty dict: the state of the graph has no key
  \<^verbatim>\<open>state\<close>. The store is returned with the response.
\<close>

record invoke_response =
  resp_messages :: "serialized list"
  resp_state :: "(string \<times> pyval) list"

definition invoke ::
  "(nat \<Rightarrow> nat \<Rightarrow> string) \<Rightarrow> completion_oracle \<Rightarrow> store \<Rightarrow> string \<Rightarrow> wire_message list
     \<Rightarrow> (http_error + invoke_response) \<times> store"
where
  "invoke uuid4 model saved tid req_messages =
     (let r = compiled_graph_invoke uuid4 model saved tid req_messages in
        (case returned r of
           Inl e \<Rightarrow> (Inl (HTTPException 500 (str_exn e)), store_after r)
         | Inr resp \<Rightarrow>
             (Inr \<lparr>resp_messages = serialize_messages (map message_object (messages resp)),
                   resp_state = []\<rparr>,
              store_after r)))"

text \<open>
  \<^verbatim>\<open>stream\<close>, lines 126 to 166: the strings the generator yields, in order. For an event
  it yields two: the line \<^verbatim>\<open>event: <name>\<close>, and the line \<^verbatim>\<open>data: <json>\<close>, given
  here by the value \<^verbatim>\<open>json.dumps\<close> is handed (\<^verbatim>\<open>data\<close>, or \<^verbatim>\<open>err = {"error": str(e)}\<close>).
  How \<^verbatim>\<open>EventSourceResponse\<close> frames the strings it is handed is the library's, and is
  not part of the model. Line 138 prints the content of the last message of the request
  before the graph runs: \<^verbatim>\<open>input_dict['messages'][-1]\<close> raises \<^verbatim>\<open>IndexError\<close> on an
  empty list, inside the \<^verbatim>\<open>try\<close>.
\<close>

record stream_data =
  data_node :: string
  data_messages :: "serialized list"
  data_state :: "(string \<times> pyval) list"

datatype sse_json = Data stream_data | Err string

datatype sse_chunk = Event_line string | Data_line sse_json

definition stream ::
  "(nat \<Rightarrow> nat \<Rightarrow> string) \<Rightarrow> completion_oracle \<Rightarrow> store \<Rightarrow> string \<Rightarrow> wire_message list
     \<Rightarrow> sse_chunk list \<times> store"
where
  "stream uuid4 model saved tid req_messages =
     (if req_messages = []
      then ([Event_line ''error'',
             Data_line (Err (str_exn (Exception ''IndexError'' ''list index out of range'')))],
            saved)
      else
        (let r = compiled_graph_invoke uuid4 model saved tid req_messages in
           (case returned r of
              Inl e \<Rightarrow> ([Event_line ''error'', Data_line (Err (str_exn e))], store_after r)
            | Inr resp \<Rightarrow>
                ([Event_line ''message'',
                  Data_line
                    (Data
                       \<lparr>data_node = ''conversation'',
                        data_messages = serialize_messages (map message_object (messages resp)),
                        data_state = []\<rparr>)],
                 store_after r))))"

text \<open>
  \<^verbatim>\<open>get_thread_state\<close>, lines 168 to 177. \<^verbatim>\<open>compiled_graph.get_state\<close> is the library's:
  its argument here is what that call did, raise or return the saved values of the
  thread (none for a thread that has no saved state). Whatever is raised inside the
  \<^verbatim>\<open>try\<close> is caught, and the empty answer is returned.
\<close>

record thread_state =
  ts_messages :: "serialized list"
  ts_summary :: string

definition get_thread_state :: "(exn + state option) \<Rightarrow> http_error + thread_state" where
  "get_thread_state snapshot =
     (case snapshot of
        Inl e \<Rightarrow> Inr \<lparr>ts_messages = [], ts_summary = []\<rparr>
      | Inr values \<Rightarrow>
          Inr \<lparr>ts_messages =
                 serialize_messages
                   (map message_object (case values of None \<Rightarrow> [] | Some st \<Rightarrow> messages st)),
               ts_summary =
                 (case values of
                    None \<Rightarrow> []
                  | Some st \<Rightarrow> (case summary st of None \<Rightarrow> [] | Some s \<Rightarrow> s))\<rparr>)"

text \<open>The library's \<^verbatim>\<open>get_state\<close> over the store: the saved values of the thread.\<close>

definition compiled_graph_get_state :: "store \<Rightarrow> string \<Rightarrow> exn + state option" where
  "compiled_graph_get_state saved tid = Inr (saved tid)"

text \<open>
  \<^verbatim>\<open>delete_thread\<close>, lines 179 to 187. \<^verbatim>\<open>memory\<close> is the saver the graph module
  exports, or \<^verbatim>\<open>None\<close> when it exports none (line 50); a saver is given by what its
  \<^verbatim>\<open>delete_state\<close> does for a thread id on a store: raise, or return the store it
  leaves.
\<close>

type_synonym saver = "string \<Rightarrow> store \<Rightarrow> exn + store"

definition delete_thread ::
  "saver option \<Rightarrow> string \<Rightarrow> store \<Rightarrow> (http_error + string) \<times> store"
where
  "delete_thread memory tid saved =
     (case memory of
        None \<Rightarrow> (Inl (HTTPException 500 ''Memory saver not available in graph module''), saved)
      | Some delete_state \<Rightarrow>
          (case delete_state tid saved of
             Inl e \<Rightarrow> (Inl (HTTPException 500 (str_exn e)), saved)
           | Inr saved' \<Rightarrow> (Inr ''deleted'', saved')))"

section \<open>Predicates and example data used by the theorems\<close>

text \<open>
  The data model's invariant on the stored messages of a thread: every message has an
  id, and no two share one. The reducer gives every message an id and merges by id, so
  it holds of every list it returns from a list that has it, and of the empty list a
  thread starts from.
\<close>

definition ids_unique :: "message list \<Rightarrow> bool" where
  "ids_unique ms = (list_all (\<lambda>m. msg_id m \<noteq> None) ms \<and> distinct (map msg_id ms))"

fun is_routed :: "event \<Rightarrow> bool" where
  "is_routed (Routed n n') = True"
| "is_routed (Ran n) = False"

text \<open>A stored message: \<^verbatim>\<open>HumanMessage(content=c, id=i)\<close> and the like.\<close>

definition stored :: "role \<Rightarrow> string \<Rightarrow> string \<Rightarrow> message" where
  "stored r c i = \<lparr>role = r, content = c, msg_id = Some i\<rparr>"

text \<open>Three turns of a thread, a request of one human message, and oracles.\<close>

definition six_messages :: "message list" where
  "six_messages =
     [stored Human ''q1'' ''1'', stored AI ''a1'' ''2'', stored Human ''q2'' ''3'',
      stored AI ''a2'' ''4'', stored Human ''q3'' ''5'', stored AI ''a3'' ''6'']"

definition one_thread :: store where
  "one_thread = (\<lambda>tid. None)(''t1'' \<mapsto> \<lparr>messages = six_messages, summary = Some ''old''\<rparr>)"

definition no_thread :: store where
  "no_thread = (\<lambda>tid. None)"

definition one_question :: "wire_message list" where
  "one_question = [\<lparr>msg_type = ''human'', msg_content = ''q4''\<rparr>]"

definition fixed_uuid4 :: "nat \<Rightarrow> nat \<Rightarrow> string" where
  "fixed_uuid4 step k = ''u''"

definition echo_model :: completion_oracle where
  "echo_model prompt = Inr (''ok'', Some ''r'')"

definition failing_model :: completion_oracle where
  "failing_model prompt = Inl (Exception ''OracleError'' ''down'')"

text \<open>A model that answers the conversation and fails on the compaction prompt.\<close>

definition no_summary_model :: completion_oracle where
  "no_summary_model prompt =
     (if prompt \<noteq> [] \<and> msg_id (last prompt) = None
      then Inl (Exception ''OracleError'' ''down'')
      else Inr (''ok'', Some ''r''))"

text \<open>A model that answers with the content of the first message of its prompt.\<close>

definition probe_model :: completion_oracle where
  "probe_model prompt =
     (case prompt of [] \<Rightarrow> Inr ([], Some ''r'') | m # ms \<Rightarrow> Inr (content m, Some ''r''))"

text \<open>A model that answers every prompt with a marker of its own.\<close>

definition marker_model :: completion_oracle where
  "marker_model prompt = Inr (''S2'', Some ''r2'')"

definition two_messages :: "message list" where
  "two_messages = [stored Human ''q1'' ''1'', stored AI ''a1'' ''2'']"

definition short_thread :: store where
  "short_thread = (\<lambda>tid. None)(''t1'' \<mapsto> \<lparr>messages = two_messages, summary = None\<rparr>)"

text \<open>A model whose answer to every prompt is the empty text.\<close>

definition silent_model :: completion_oracle where
  "silent_model prompt = Inr ([], Some ''r'')"

text \<open>
  The saver that \<^verbatim>\<open>graph.py\<close> wires up, line 74: \<^verbatim>\<open>memory = MemorySaver()\<close>. The
  library's class has no method \<^verbatim>\<open>delete_state\<close> (the method with which it deletes a
  thread is named \<^verbatim>\<open>delete_thread\<close>), so the attribute lookup \<^verbatim>\<open>memory.delete_state\<close>
  raises \<^verbatim>\<open>AttributeError\<close> before anything is deleted. The text of the exception names
  the class as the installed version of the library does.
\<close>

definition memory_saver :: saver where
  "memory_saver tid saved =
     Inl (Exception ''AttributeError''
            ([CHR 0x27] @ ''MemorySaver'' @ [CHR 0x27] @ '' object has no attribute ''
               @ [CHR 0x27] @ ''delete_state'' @ [CHR 0x27]))"

section \<open>The reducer: removal by id, and the invariant on ids\<close>

lemma assign_ids_present:
  "list_all (\<lambda>m. msg_id m \<noteq> None) ms \<Longrightarrow> assign_ids uuid4 k ms = (ms, k)"
  by (induction ms arbitrary: k) (auto split: option.splits)

lemma merged_by_id_None:
  "merged_by_id ms i = None \<longleftrightarrow> i \<notin> msg_id ` set ms"
  by (induction ms) (auto split: option.splits)

lemma merged_by_id_Some:
  "merged_by_id ms i = Some k \<Longrightarrow> k < length ms \<and> msg_id (ms ! k) = i"
  by (induction ms arbitrary: k) (auto split: option.splits if_splits)

lemma merge_loop_removals:
  "set (map msg_id rs) \<subseteq> set (map msg_id merged) \<Longrightarrow> list_all (\<lambda>m. role m = Remove) rs
   \<Longrightarrow> merge_loop merged rm rs = Inr (merged, rev (map msg_id rs) @ rm)"
proof (induction rs arbitrary: rm)
  case Nil
  then show ?case by simp
next
  case (Cons r rs)
  from Cons.prems have "msg_id r \<in> msg_id ` set merged" by auto
  then obtain k where "merged_by_id merged (msg_id r) = Some k"
    using merged_by_id_None [of merged "msg_id r"] by (cases "merged_by_id merged (msg_id r)") auto
  with Cons show ?case by simp
qed

lemma filter_take_ids:
  assumes "distinct (map f xs)"
  shows "filter (\<lambda>m. f m \<notin> f ` set (take k xs)) xs = drop k xs"
proof -
  from assms have "distinct (map f (take k xs) @ map f (drop k xs))"
    by (metis append_take_drop_id map_append)
  then have disj: "f ` set (take k xs) \<inter> f ` set (drop k xs) = {}"
    by auto
  have "filter (\<lambda>m. f m \<notin> f ` set (take k xs)) (take k xs @ drop k xs) = drop k xs"
    unfolding filter_append using disj by (auto simp: filter_empty_conv intro!: filter_True)
  then show ?thesis by simp
qed

lemma add_messages_delete:
  assumes "ids_unique (messages st)"
  shows "add_messages uuid4 (messages st) (delete_messages st)
           = Inr (drop (length (messages st) - 2) (messages st))"
proof -
  let ?ms = "messages st"
  let ?k = "length ?ms - 2"
  from assms have present: "list_all (\<lambda>m. msg_id m \<noteq> None) ?ms"
    and dist: "distinct (map msg_id ?ms)"
    by (simp_all add: ids_unique_def)
  have left: "assign_ids uuid4 0 ?ms = (?ms, 0)"
    using present by (rule assign_ids_present)
  have "list_all (\<lambda>m. msg_id m \<noteq> None) (take ?k ?ms)"
    using present by (auto simp: list_all_iff dest: in_set_takeD)
  then have rpresent: "list_all (\<lambda>m. msg_id m \<noteq> None) (delete_messages st)"
    by (simp add: delete_messages_def list_all_iff RemoveMessage_def)
  have right: "assign_ids uuid4 0 (delete_messages st) = (delete_messages st, 0)"
    using rpresent by (rule assign_ids_present)
  have ids: "map msg_id (delete_messages st) = map msg_id (take ?k ?ms)"
    by (simp add: delete_messages_def RemoveMessage_def)
  have sub: "set (map msg_id (delete_messages st)) \<subseteq> set (map msg_id ?ms)"
    unfolding ids by (auto dest: in_set_takeD)
  have rem: "list_all (\<lambda>m. role m = Remove) (delete_messages st)"
    by (simp add: delete_messages_def list_all_iff RemoveMessage_def)
  have loop: "merge_loop ?ms [] (delete_messages st)
                = Inr (?ms, rev (map msg_id (take ?k ?ms)) @ [])"
    using merge_loop_removals [OF sub rem, of "[]"] unfolding ids .
  have "filter (\<lambda>m. msg_id m \<notin> set (rev (map msg_id (take ?k ?ms)) @ [])) ?ms = drop ?k ?ms"
    using filter_take_ids [OF dist, of ?k] by simp
  then show ?thesis
    by (simp add: add_messages_def left right loop)
qed

lemma assign_ids_all_present:
  "assign_ids uuid4 k ms = (ms', k') \<Longrightarrow> list_all (\<lambda>m. msg_id m \<noteq> None) ms'"
  by (induction ms arbitrary: k ms' k') (auto split: option.splits prod.splits)

lemma merge_loop_all:
  "merge_loop merged rm right = Inr (merged', rm') \<Longrightarrow> list_all P merged \<Longrightarrow> list_all P right
   \<Longrightarrow> list_all P merged'"
proof (induction right arbitrary: merged rm)
  case Nil
  then show ?case by simp
next
  case (Cons m right)
  show ?case
  proof (cases "merged_by_id merged (msg_id m)")
    case None
    with Cons.prems show ?thesis
      by (cases "role m = Remove") (auto intro: Cons.IH)
  next
    case (Some k)
    have "list_all P (merged[k := m])"
      using Cons.prems(2,3) by (auto simp: list_all_iff dest: set_update_subset_insert [THEN subsetD])
    with Some Cons.prems show ?thesis
      by (cases "role m = Remove") (auto intro: Cons.IH)
  qed
qed

lemma merge_loop_distinct:
  "merge_loop merged rm right = Inr (merged', rm') \<Longrightarrow> distinct (map msg_id merged)
   \<Longrightarrow> distinct (map msg_id merged')"
proof (induction right arbitrary: merged rm)
  case Nil
  then show ?case by simp
next
  case (Cons m right)
  show ?case
  proof (cases "merged_by_id merged (msg_id m)")
    case None
    then have "msg_id m \<notin> msg_id ` set merged"
      by (simp add: merged_by_id_None)
    then have "distinct (map msg_id (merged @ [m]))"
      using Cons.prems(2) by simp
    with None Cons.prems show ?thesis
      by (cases "role m = Remove") (auto intro: Cons.IH)
  next
    case (Some k)
    then have "k < length merged" and "msg_id (merged ! k) = msg_id m"
      using merged_by_id_Some by blast+
    then have "map msg_id (merged[k := m]) = map msg_id merged"
      by (simp add: map_update list_update_same_conv)
    then have "distinct (map msg_id (merged[k := m]))"
      using Cons.prems(2) by simp
    with Some Cons.prems show ?thesis
      by (cases "role m = Remove") (auto intro: Cons.IH)
  qed
qed

lemma add_messages_present:
  assumes "add_messages uuid4 left right = Inr ms"
  shows "list_all (\<lambda>m. msg_id m \<noteq> None) ms"
proof -
  obtain left' k where l: "assign_ids uuid4 0 left = (left', k)" by force
  obtain right' k' where r: "assign_ids uuid4 k right = (right', k')" by force
  from assms l r obtain merged rm where
    ml: "merge_loop left' [] right' = Inr (merged, rm)"
    and ms: "ms = filter (\<lambda>m. msg_id m \<notin> set rm) merged"
    by (auto simp: add_messages_def split: sum.splits)
  have "list_all (\<lambda>m. msg_id m \<noteq> None) left'"
    using assign_ids_all_present [OF l] .
  moreover have "list_all (\<lambda>m. msg_id m \<noteq> None) right'"
    using assign_ids_all_present [OF r] .
  ultimately have "list_all (\<lambda>m. msg_id m \<noteq> None) merged"
    using merge_loop_all [OF ml] by blast
  then show ?thesis
    by (simp add: ms list_all_iff)
qed

lemma add_messages_ids_unique:
  assumes "ids_unique left" and "add_messages uuid4 left right = Inr ms"
  shows "ids_unique ms"
proof -
  from assms(1) have l: "assign_ids uuid4 0 left = (left, 0)"
    by (simp add: ids_unique_def assign_ids_present)
  obtain right' k' where r: "assign_ids uuid4 0 right = (right', k')" by force
  from assms(2) l r obtain merged rm where
    ml: "merge_loop left [] right' = Inr (merged, rm)"
    and ms: "ms = filter (\<lambda>m. msg_id m \<notin> set rm) merged"
    by (auto simp: add_messages_def split: sum.splits)
  have "distinct (map msg_id merged)"
    using merge_loop_distinct [OF ml] assms(1) by (simp add: ids_unique_def)
  then have "distinct (map msg_id ms)"
    by (simp add: ms distinct_map_filter)
  with add_messages_present [OF assms(2)] show ?thesis
    by (simp add: ids_unique_def)
qed

lemma run_step_summary:
  "n \<noteq> Summarize_conversation \<Longrightarrow> run_step uuid4 inp n model st = Inr st' \<Longrightarrow> summary st' = summary st"
  by (cases n) (auto simp: run_step_def apply_writes_def call_model_def split: sum.splits)

lemma assign_ids_roles:
  "assign_ids uuid4 k ms = (ms', k') \<Longrightarrow>
     map role ms' = map role ms \<and> map content ms' = map content ms"
  by (induction ms arbitrary: k ms' k') (auto split: option.splits prod.splits)

lemma filter_update_le:
  assumes "\<not> P m"
  shows "length (filter P (xs[k := m])) \<le> length (filter P xs)"
proof (cases "k < length xs")
  case True
  have upd: "xs[k := m] = take k xs @ m # drop (Suc k) xs"
    using True by (rule upd_conv_take_nth_drop)
  have old: "xs = take k xs @ xs ! k # drop (Suc k) xs"
    using True by (rule id_take_nth_drop)
  have "length (filter P (xs[k := m]))
      = length (filter P (take k xs)) + length (filter P (drop (Suc k) xs))"
    unfolding upd using assms by simp
  moreover have "length (filter P (take k xs @ xs ! k # drop (Suc k) xs))
      \<ge> length (filter P (take k xs)) + length (filter P (drop (Suc k) xs))"
    by simp
  ultimately show ?thesis
    using old by simp
next
  case False
  then have "xs[k := m] = xs"
    by (intro list_update_beyond) simp
  then show ?thesis by simp
qed

lemma merge_loop_one:
  assumes "merge_loop merged [] [m] = Inr (merged', rm')" and "role m \<noteq> Remove"
  shows "rm' = [] \<and> (merged' = merged @ [m] \<or> (\<exists>k. merged' = merged[k := m]))"
  using assms by (auto split: option.splits)

lemma conversation_writes_no_system:
  assumes "add_messages uuid4 left [AIMessage reply rid] = Inr ms"
  shows "length (filter (\<lambda>m. role m = System) ms) \<le> length (filter (\<lambda>m. role m = System) left)
       \<and> (\<forall>m \<in> set ms. role m = System \<longrightarrow>
             (\<exists>m0 \<in> set left. role m0 = System \<and> content m0 = content m))"
proof -
  obtain left' k where l: "assign_ids uuid4 0 left = (left', k)" by force
  obtain right' k' where r: "assign_ids uuid4 k [AIMessage reply rid] = (right', k')" by force
  from r obtain a where a: "right' = [a]" and ra: "role a = AI"
    by (auto simp: AIMessage_def split: option.splits)
  from assms l r obtain merged rm where
    ml: "merge_loop left' [] right' = Inr (merged, rm)"
    and ms: "ms = filter (\<lambda>m. msg_id m \<notin> set rm) merged"
    by (auto simp: add_messages_def split: sum.splits)
  from ml a ra have shape: "rm = [] \<and> (merged = left' @ [a] \<or> (\<exists>k. merged = left'[k := a]))"
    using merge_loop_one [of left' a merged rm] by simp
  then have ms': "ms = merged" using ms by simp
  have roles: "map role left' = map role left" and contents: "map content left' = map content left"
    using assign_ids_roles [OF l] by simp_all
  have count: "length (filter (\<lambda>m. role m = System) left') = length (filter (\<lambda>m. role m = System) left)"
  proof -
    have "filter (\<lambda>r. r = System) (map role left') = filter (\<lambda>r. r = System) (map role left)"
      by (simp add: roles)
    then have "length (filter (\<lambda>r. r = System) (map role left'))
        = length (filter (\<lambda>r. r = System) (map role left))" by simp
    then show ?thesis by (simp add: filter_map comp_def)
  qed
  have le: "length (filter (\<lambda>m. role m = System) merged) \<le> length (filter (\<lambda>m. role m = System) left')"
    using shape ra filter_update_le [of "\<lambda>m. role m = System" a left'] by auto
  have from_left: "\<exists>m0 \<in> set left. role m0 = System \<and> content m0 = content m"
    if "m \<in> set merged" and "role m = System" for m
  proof -
    from that shape ra have "m \<in> set left'"
      by (auto dest: set_update_subset_insert [THEN subsetD])
    then obtain i where i: "i < length left'" and mi: "left' ! i = m"
      by (auto simp: in_set_conv_nth)
    have len: "length left' = length left"
      using roles by (metis length_map)
    have "role (left ! i) = role m"
      using roles i mi len by (metis nth_map)
    moreover have "content (left ! i) = content m"
      using contents i mi len by (metis nth_map)
    ultimately show ?thesis
      using that(2) i len by (metis nth_mem)
  qed
  from le count from_left show ?thesis
    by (simp add: ms')
qed

section \<open>A run of the graph, step by step\<close>

lemma pregel_loop_END:
  "pregel_loop uuid4 model inp fuel step END st evs = \<lparr>outcome = Inr st, checkpoint = st, events = evs\<rparr>"
  by (cases fuel) simp_all

lemma pregel_loop_three:
  "pregel_loop uuid4 model inp (Suc (Suc (Suc fuel))) 0 START st0 [] =
     (case run_step (uuid4 0) inp START model st0 of
        Inl e \<Rightarrow> \<lparr>outcome = Inl e, checkpoint = st0, events = [Ran START]\<rparr>
      | Inr st1 \<Rightarrow>
          (case run_step (uuid4 1) inp Conversation model st1 of
             Inl e \<Rightarrow>
               \<lparr>outcome = Inl e, checkpoint = st1, events = [Ran START, Ran Conversation]\<rparr>
           | Inr mid \<Rightarrow>
               if length (messages mid) > 6
               then
                 (case run_step (uuid4 2) inp Summarize_conversation model mid of
                    Inl e \<Rightarrow>
                      \<lparr>outcome = Inl e, checkpoint = mid,
                       events = [Ran START, Ran Conversation,
                                Routed Conversation Summarize_conversation,
                                Ran Summarize_conversation]\<rparr>
                  | Inr fin \<Rightarrow>
                      \<lparr>outcome = Inr fin, checkpoint = fin,
                       events = [Ran START, Ran Conversation,
                                Routed Conversation Summarize_conversation,
                                Ran Summarize_conversation]\<rparr>)
               else
                 \<lparr>outcome = Inr mid, checkpoint = mid,
                  events = [Ran START, Ran Conversation, Routed Conversation END]\<rparr>))"
  by (simp add: pregel_loop_END should_continue_def numeral_2_eq_2 split: sum.splits)

lemma recursion_limit_Suc: "recursion_limit = Suc (Suc (Suc 22))"
  by (simp add: recursion_limit_def)

lemma compiled_graph_invoke_unfold:
  "compiled_graph_invoke uuid4 model saved tid inp =
     (let st0 = (case saved tid of None \<Rightarrow> empty_state | Some st \<Rightarrow> st) in
      case run_step (uuid4 0) inp START model st0 of
        Inl e \<Rightarrow> \<lparr>returned = Inl e, store_after = saved(tid \<mapsto> st0), trace = [Ran START]\<rparr>
      | Inr st1 \<Rightarrow>
          (case run_step (uuid4 1) inp Conversation model st1 of
             Inl e \<Rightarrow>
               \<lparr>returned = Inl e, store_after = saved(tid \<mapsto> st1),
                trace = [Ran START, Ran Conversation]\<rparr>
           | Inr mid \<Rightarrow>
               if length (messages mid) > 6
               then
                 (case run_step (uuid4 2) inp Summarize_conversation model mid of
                    Inl e \<Rightarrow>
                      \<lparr>returned = Inl e, store_after = saved(tid \<mapsto> mid),
                       trace = [Ran START, Ran Conversation,
                                Routed Conversation Summarize_conversation,
                                Ran Summarize_conversation]\<rparr>
                  | Inr fin \<Rightarrow>
                      \<lparr>returned = Inr fin, store_after = saved(tid \<mapsto> fin),
                       trace = [Ran START, Ran Conversation,
                                Routed Conversation Summarize_conversation,
                                Ran Summarize_conversation]\<rparr>)
               else
                 \<lparr>returned = Inr mid, store_after = saved(tid \<mapsto> mid),
                  trace = [Ran START, Ran Conversation, Routed Conversation END]\<rparr>))"
  unfolding compiled_graph_invoke_def recursion_limit_Suc pregel_loop_three Let_def
  by (simp split: sum.splits)

text \<open>The definitions a concrete run is evaluated with.\<close>

lemmas run_defs =
  run_step_def apply_writes_def add_messages_def call_model_def call_model_prompt_def
  model_invoke_def summarize_conversation_def summarize_prompt_def summary_message_def
  delete_messages_def get_summary_def convert_to_message_def HumanMessage_def AIMessage_def
  SystemMessage_def RemoveMessage_def stored_def six_messages_def echo_model_def
  failing_model_def no_summary_model_def marker_model_def silent_model_def one_thread_def no_thread_def one_question_def
  fixed_uuid4_def empty_state_def

text \<open>The steps of two concrete turns: on a thread of six messages, and on a new thread.\<close>

lemma start_one_thread:
  "run_step (fixed_uuid4 0) one_question START model
     (case one_thread ''t1'' of None \<Rightarrow> empty_state | Some st \<Rightarrow> st)
     = Inr \<lparr>messages = six_messages @ [stored Human ''q4'' ''u''], summary = Some ''old''\<rparr>"
  by (simp add: run_defs)

lemma reply_one_thread:
  "run_step (fixed_uuid4 1) one_question Conversation echo_model
       \<lparr>messages = six_messages @ [stored Human ''q4'' ''u''], summary = Some ''old''\<rparr>
     = Inr \<lparr>messages = six_messages @ [stored Human ''q4'' ''u'', stored AI ''ok'' ''r''],
            summary = Some ''old''\<rparr>"
  by (simp add: run_defs)

lemma start_no_thread:
  "run_step (fixed_uuid4 0) one_question START model
     (case no_thread ''t1'' of None \<Rightarrow> empty_state | Some st \<Rightarrow> st)
     = Inr \<lparr>messages = [stored Human ''q4'' ''u''], summary = None\<rparr>"
  by (simp add: run_defs)

lemma reply_no_thread:
  "run_step (fixed_uuid4 1) one_question Conversation echo_model
       \<lparr>messages = [stored Human ''q4'' ''u''], summary = None\<rparr>
     = Inr \<lparr>messages = [stored Human ''q4'' ''u'', stored AI ''ok'' ''r''], summary = None\<rparr>"
  by (simp add: run_defs)

lemma compact_one_thread:
  "run_step (fixed_uuid4 2) one_question Summarize_conversation echo_model
        \<lparr>messages = six_messages @ [stored Human ''q4'' ''u'', stored AI ''ok'' ''r''],
         summary = Some ''old''\<rparr>
       = Inr \<lparr>messages = [stored Human ''q4'' ''u'', stored AI ''ok'' ''r''], summary = Some ''ok''\<rparr>"
  by (simp add: run_defs)

lemma probe_one_thread:
  "run_step (fixed_uuid4 1) one_question Conversation probe_model
     \<lparr>messages = six_messages @ [stored Human ''q4'' ''u''], summary = Some ''old''\<rparr>
   = Inr \<lparr>messages = six_messages
             @ [stored Human ''q4'' ''u'', stored AI ''Summary of conversation earlier: old'' ''r''],
          summary = Some ''old''\<rparr>"
  by (simp add: run_defs probe_model_def)

section \<open>Compaction keeps the last two messages\<close>

text \<open>
  Claim C2. A compaction (the node \<^verbatim>\<open>summarize_conversation\<close> and the application of
  its writes) on a state whose stored messages have unique ids: when the oracle
  answers, the compaction succeeds, and the messages it leaves are exactly the last two
  of the messages before it (all of them when there were fewer than two), every earlier
  message being removed; when the oracle raises, so does the compaction.
\<close>

theorem compaction_keeps_last_two:
  assumes "ids_unique (messages st)"
  shows "run_step uuid4 inp Summarize_conversation model st =
           (case model (summarize_prompt st) of
              Inl e \<Rightarrow> Inl e
            | Inr (reply, rid) \<Rightarrow>
                Inr \<lparr>messages = drop (length (messages st) - 2) (messages st),
                     summary = Some reply\<rparr>)"
  using add_messages_delete [OF assms, of uuid4]
  by (simp add: run_step_def summarize_conversation_def model_invoke_def apply_writes_def
        AIMessage_def split: sum.splits prod.splits)

theorem compaction_keeps_last_two_witness:
  "ids_unique (six_messages @ [stored Human ''q4'' ''u'', stored AI ''ok'' ''r''])
   \<and> run_step (fixed_uuid4 2) one_question Summarize_conversation echo_model
        \<lparr>messages = six_messages @ [stored Human ''q4'' ''u'', stored AI ''ok'' ''r''],
         summary = Some ''old''\<rparr>
       = Inr \<lparr>messages = [stored Human ''q4'' ''u'', stored AI ''ok'' ''r''], summary = Some ''ok''\<rparr>"
proof -
  have u: "ids_unique (messages \<lparr>messages = six_messages @ [stored Human ''q4'' ''u'', stored AI ''ok'' ''r''],
         summary = Some ''old''\<rparr>)"
    by (simp add: ids_unique_def six_messages_def stored_def)
  show ?thesis
    using u compaction_keeps_last_two [OF u, of "fixed_uuid4 2" one_question echo_model]
    by (simp add: echo_model_def six_messages_def)
qed

section \<open>When compaction is triggered\<close>

text \<open>
  Claim C1. In a turn whose input was applied (state \<open>st1\<close>) and whose reply was
  appended (state \<open>mid\<close>), the node \<^verbatim>\<open>summarize_conversation\<close> runs if and only if
  \<open>mid\<close> holds more than six messages. With six or fewer the turn returns \<open>mid\<close>,
  saves it, and its summary is the one the thread had before the turn; with seven the
  compaction runs.
\<close>

theorem compaction_iff_more_than_six:
  assumes "run_step (uuid4 0) inp START model
             (case saved tid of None \<Rightarrow> empty_state | Some st \<Rightarrow> st) = Inr st1"
    and "run_step (uuid4 1) inp Conversation model st1 = Inr mid"
  shows "(Ran Summarize_conversation \<in> set (trace (compiled_graph_invoke uuid4 model saved tid inp))
            \<longleftrightarrow> length (messages mid) > 6)
       \<and> (length (messages mid) \<le> 6 \<longrightarrow>
            returned (compiled_graph_invoke uuid4 model saved tid inp) = Inr mid
            \<and> store_after (compiled_graph_invoke uuid4 model saved tid inp) tid = Some mid
            \<and> summary mid = summary (case saved tid of None \<Rightarrow> empty_state | Some st \<Rightarrow> st))
       \<and> (length (messages mid) = 7 \<longrightarrow>
            Ran Summarize_conversation \<in> set (trace (compiled_graph_invoke uuid4 model saved tid inp)))"
proof -
  have "summary st1 = summary (case saved tid of None \<Rightarrow> empty_state | Some st \<Rightarrow> st)"
    using run_step_summary [OF _ assms(1)] by simp
  moreover have "summary mid = summary st1"
    using run_step_summary [OF _ assms(2)] by simp
  ultimately show ?thesis
    using assms by (simp add: compiled_graph_invoke_unfold Let_def split: sum.splits)
qed

theorem compaction_iff_more_than_six_witness:
  "length (messages \<lparr>messages = [stored Human ''q4'' ''u'', stored AI ''ok'' ''r''], summary = None\<rparr>) \<le> 6
   \<and> Ran Summarize_conversation
        \<notin> set (trace (compiled_graph_invoke fixed_uuid4 echo_model no_thread ''t1'' one_question))
   \<and> returned (compiled_graph_invoke fixed_uuid4 echo_model no_thread ''t1'' one_question)
        = Inr \<lparr>messages = [stored Human ''q4'' ''u'', stored AI ''ok'' ''r''], summary = None\<rparr>
   \<and> length (messages \<lparr>messages = six_messages @ [stored Human ''q4'' ''u'', stored AI ''ok'' ''r''],
                        summary = Some ''old''\<rparr>) > 6
   \<and> Ran Summarize_conversation
        \<in> set (trace (compiled_graph_invoke fixed_uuid4 echo_model one_thread ''t1'' one_question))"
  using compaction_iff_more_than_six [of fixed_uuid4 one_question echo_model no_thread "''t1''",
      OF start_no_thread reply_no_thread]
    compaction_iff_more_than_six [of fixed_uuid4 one_question echo_model one_thread "''t1''",
      OF start_one_thread reply_one_thread]
  by (simp add: six_messages_def)

section \<open>One evaluation of the predicate, at most one compaction\<close>

text \<open>
  Claim C6. The nodes and routings of any turn are one of four sequences: the run
  stops in \<^verbatim>\<open>START\<close>, stops in \<^verbatim>\<open>conversation\<close>, ends after routing to \<^verbatim>\<open>END\<close>, or
  routes to \<^verbatim>\<open>summarize_conversation\<close>, runs it and ends. So the compaction runs at
  most once, \<^verbatim>\<open>should_continue\<close> is evaluated at most once, and in every turn whose
  reply was appended it is evaluated exactly once, on the state that holds the reply,
  and never after the compaction.
\<close>

theorem at_most_one_compaction:
  "(trace (compiled_graph_invoke uuid4 model saved tid inp) = [Ran START]
    \<or> trace (compiled_graph_invoke uuid4 model saved tid inp) = [Ran START, Ran Conversation]
    \<or> trace (compiled_graph_invoke uuid4 model saved tid inp)
         = [Ran START, Ran Conversation, Routed Conversation END]
    \<or> trace (compiled_graph_invoke uuid4 model saved tid inp)
         = [Ran START, Ran Conversation, Routed Conversation Summarize_conversation,
            Ran Summarize_conversation])
   \<and> length (filter (\<lambda>ev. ev = Ran Summarize_conversation)
               (trace (compiled_graph_invoke uuid4 model saved tid inp))) \<le> 1
   \<and> length (filter is_routed (trace (compiled_graph_invoke uuid4 model saved tid inp))) \<le> 1
   \<and> (\<forall>st1 mid.
         run_step (uuid4 0) inp START model
           (case saved tid of None \<Rightarrow> empty_state | Some st \<Rightarrow> st) = Inr st1
         \<longrightarrow> run_step (uuid4 1) inp Conversation model st1 = Inr mid
         \<longrightarrow> filter is_routed (trace (compiled_graph_invoke uuid4 model saved tid inp))
               = [Routed Conversation (should_continue mid)])"
  by (simp add: compiled_graph_invoke_unfold should_continue_def Let_def split: sum.splits)

theorem at_most_one_compaction_witness:
  "run_step (fixed_uuid4 0) one_question START echo_model
     (case one_thread ''t1'' of None \<Rightarrow> empty_state | Some st \<Rightarrow> st)
     = Inr \<lparr>messages = six_messages @ [stored Human ''q4'' ''u''], summary = Some ''old''\<rparr>
   \<and> run_step (fixed_uuid4 1) one_question Conversation echo_model
       \<lparr>messages = six_messages @ [stored Human ''q4'' ''u''], summary = Some ''old''\<rparr>
     = Inr \<lparr>messages = six_messages @ [stored Human ''q4'' ''u'', stored AI ''ok'' ''r''],
            summary = Some ''old''\<rparr>
   \<and> trace (compiled_graph_invoke fixed_uuid4 echo_model one_thread ''t1'' one_question)
     = [Ran START, Ran Conversation, Routed Conversation Summarize_conversation,
        Ran Summarize_conversation]
   \<and> filter is_routed (trace (compiled_graph_invoke fixed_uuid4 echo_model one_thread ''t1'' one_question))
     = [Routed Conversation Summarize_conversation]"
proof -
  have a: "run_step (fixed_uuid4 0) one_question START echo_model
     (case one_thread ''t1'' of None \<Rightarrow> empty_state | Some st \<Rightarrow> st)
     = Inr \<lparr>messages = six_messages @ [stored Human ''q4'' ''u''], summary = Some ''old''\<rparr>"
    by (simp add: run_defs)
  have b: "run_step (fixed_uuid4 1) one_question Conversation echo_model
       \<lparr>messages = six_messages @ [stored Human ''q4'' ''u''], summary = Some ''old''\<rparr>
     = Inr \<lparr>messages = six_messages @ [stored Human ''q4'' ''u'', stored AI ''ok'' ''r''],
            summary = Some ''old''\<rparr>"
    by (simp add: run_defs)
  have c: "should_continue \<lparr>messages = six_messages @ [stored Human ''q4'' ''u'', stored AI ''ok'' ''r''],
            summary = Some ''old''\<rparr> = Summarize_conversation"
    by (simp add: should_continue_def six_messages_def)
  from at_most_one_compaction [of fixed_uuid4 echo_model one_thread "''t1''" one_question]
  have "\<forall>st1 mid.
         run_step (fixed_uuid4 0) one_question START echo_model
           (case one_thread ''t1'' of None \<Rightarrow> empty_state | Some st \<Rightarrow> st) = Inr st1
         \<longrightarrow> run_step (fixed_uuid4 1) one_question Conversation echo_model st1 = Inr mid
         \<longrightarrow> filter is_routed (trace (compiled_graph_invoke fixed_uuid4 echo_model one_thread ''t1'' one_question))
               = [Routed Conversation (should_continue mid)]"
    by blast
  with a b c have r: "filter is_routed (trace (compiled_graph_invoke fixed_uuid4 echo_model one_thread ''t1'' one_question))
     = [Routed Conversation Summarize_conversation]"
    by metis
  from at_most_one_compaction [of fixed_uuid4 echo_model one_thread "''t1''" one_question]
  have "trace (compiled_graph_invoke fixed_uuid4 echo_model one_thread ''t1'' one_question) = [Ran START]
    \<or> trace (compiled_graph_invoke fixed_uuid4 echo_model one_thread ''t1'' one_question) = [Ran START, Ran Conversation]
    \<or> trace (compiled_graph_invoke fixed_uuid4 echo_model one_thread ''t1'' one_question)
         = [Ran START, Ran Conversation, Routed Conversation END]
    \<or> trace (compiled_graph_invoke fixed_uuid4 echo_model one_thread ''t1'' one_question)
         = [Ran START, Ran Conversation, Routed Conversation Summarize_conversation,
            Ran Summarize_conversation]"
    by blast
  with r have "trace (compiled_graph_invoke fixed_uuid4 echo_model one_thread ''t1'' one_question)
         = [Ran START, Ran Conversation, Routed Conversation Summarize_conversation,
            Ran Summarize_conversation]"
    by auto
  with a b r show ?thesis by simp
qed

section \<open>Compaction replaces the summary\<close>

text \<open>
  Claim C3. A compaction that succeeds sets the summary to the text the oracle returned
  for the compaction prompt, whatever the summary was before; no other step of a run
  changes the summary. Hence after any sequence of turns the summary is the oracle's
  answer to the most recent compaction.
\<close>

theorem compaction_replaces_summary:
  "(run_step uuid4 inp Summarize_conversation model st = Inr st' \<longrightarrow>
      (\<exists>reply rid. model (summarize_prompt st) = Inr (reply, rid) \<and> summary st' = Some reply))
   \<and> (n \<noteq> Summarize_conversation \<longrightarrow> run_step uuid4 inp n model st = Inr st' \<longrightarrow>
        summary st' = summary st)"
proof -
  have "summary st' = summary st"
    if "n \<noteq> Summarize_conversation" and "run_step uuid4 inp n model st = Inr st'"
    using run_step_summary [OF that] .
  moreover have "\<exists>reply rid. model (summarize_prompt st) = Inr (reply, rid) \<and> summary st' = Some reply"
    if "run_step uuid4 inp Summarize_conversation model st = Inr st'"
    using that
    by (auto simp: run_step_def summarize_conversation_def model_invoke_def apply_writes_def
          AIMessage_def split: sum.splits prod.splits)
  ultimately show ?thesis by blast
qed

theorem compaction_replaces_summary_witness:
  "run_step (fixed_uuid4 2) one_question Summarize_conversation echo_model
        \<lparr>messages = six_messages @ [stored Human ''q4'' ''u'', stored AI ''ok'' ''r''],
         summary = Some ''old''\<rparr>
       = Inr \<lparr>messages = [stored Human ''q4'' ''u'', stored AI ''ok'' ''r''], summary = Some ''ok''\<rparr>
   \<and> (\<exists>reply rid.
         echo_model (summarize_prompt
           \<lparr>messages = six_messages @ [stored Human ''q4'' ''u'', stored AI ''ok'' ''r''],
            summary = Some ''old''\<rparr>) = Inr (reply, rid)
         \<and> summary \<lparr>messages = [stored Human ''q4'' ''u'', stored AI ''ok'' ''r''],
                     summary = Some ''ok''\<rparr> = Some reply)
   \<and> run_step (fixed_uuid4 2) one_question Summarize_conversation marker_model
        \<lparr>messages = [stored Human ''q4'' ''u'', stored AI ''ok'' ''r''], summary = Some ''ok''\<rparr>
       = Inr \<lparr>messages = [stored Human ''q4'' ''u'', stored AI ''ok'' ''r''], summary = Some ''S2''\<rparr>
   \<and> (\<exists>reply rid.
         marker_model (summarize_prompt
           \<lparr>messages = [stored Human ''q4'' ''u'', stored AI ''ok'' ''r''], summary = Some ''ok''\<rparr>)
           = Inr (reply, rid)
         \<and> summary \<lparr>messages = [stored Human ''q4'' ''u'', stored AI ''ok'' ''r''],
                     summary = Some ''S2''\<rparr> = Some reply)
   \<and> Conversation \<noteq> Summarize_conversation
   \<and> summary \<lparr>messages = six_messages @ [stored Human ''q4'' ''u'', stored AI ''ok'' ''r''],
               summary = Some ''old''\<rparr>
       = summary \<lparr>messages = six_messages @ [stored Human ''q4'' ''u''], summary = Some ''old''\<rparr>"
proof -
  have second: "run_step (fixed_uuid4 2) one_question Summarize_conversation marker_model
        \<lparr>messages = [stored Human ''q4'' ''u'', stored AI ''ok'' ''r''], summary = Some ''ok''\<rparr>
       = Inr \<lparr>messages = [stored Human ''q4'' ''u'', stored AI ''ok'' ''r''], summary = Some ''S2''\<rparr>"
    by (simp add: run_defs)
  have a: "\<exists>reply rid.
         echo_model (summarize_prompt
           \<lparr>messages = six_messages @ [stored Human ''q4'' ''u'', stored AI ''ok'' ''r''],
            summary = Some ''old''\<rparr>) = Inr (reply, rid)
         \<and> summary \<lparr>messages = [stored Human ''q4'' ''u'', stored AI ''ok'' ''r''],
                     summary = Some ''ok''\<rparr> = Some reply"
    using compact_one_thread
      compaction_replaces_summary [of "fixed_uuid4 2" one_question echo_model
        "\<lparr>messages = six_messages @ [stored Human ''q4'' ''u'', stored AI ''ok'' ''r''],
           summary = Some ''old''\<rparr>"
        "\<lparr>messages = [stored Human ''q4'' ''u'', stored AI ''ok'' ''r''], summary = Some ''ok''\<rparr>"
        Conversation]
    by blast
  have b: "\<exists>reply rid.
         marker_model (summarize_prompt
           \<lparr>messages = [stored Human ''q4'' ''u'', stored AI ''ok'' ''r''], summary = Some ''ok''\<rparr>)
           = Inr (reply, rid)
         \<and> summary \<lparr>messages = [stored Human ''q4'' ''u'', stored AI ''ok'' ''r''],
                     summary = Some ''S2''\<rparr> = Some reply"
    using second
      compaction_replaces_summary [of "fixed_uuid4 2" one_question marker_model
        "\<lparr>messages = [stored Human ''q4'' ''u'', stored AI ''ok'' ''r''], summary = Some ''ok''\<rparr>"
        "\<lparr>messages = [stored Human ''q4'' ''u'', stored AI ''ok'' ''r''], summary = Some ''S2''\<rparr>"
        Conversation]
    by blast
  have c: "summary \<lparr>messages = six_messages @ [stored Human ''q4'' ''u'', stored AI ''ok'' ''r''],
               summary = Some ''old''\<rparr>
       = summary \<lparr>messages = six_messages @ [stored Human ''q4'' ''u''], summary = Some ''old''\<rparr>"
    using reply_one_thread
      compaction_replaces_summary [of "fixed_uuid4 1" one_question echo_model
        "\<lparr>messages = six_messages @ [stored Human ''q4'' ''u''], summary = Some ''old''\<rparr>"
        "\<lparr>messages = six_messages @ [stored Human ''q4'' ''u'', stored AI ''ok'' ''r''],
           summary = Some ''old''\<rparr>"
        Conversation]
    by blast
  have d: "Conversation \<noteq> Summarize_conversation"
    by simp
  from compact_one_thread a second b d c show ?thesis
    by (intro conjI)
qed

section \<open>What the oracle is sent\<close>

text \<open>
  Claim C5 says that the oracle is sent the synthesized system message whenever the
  summary is present. A compaction whose oracle answers with the empty text leaves the
  summary present and empty; \<^verbatim>\<open>call_model\<close> tests \<^verbatim>\<open>if summary:\<close>, which is false of the
  empty text, and sends the oracle the messages alone.
\<close>

theorem empty_summary_counterexample:
  "run_step (fixed_uuid4 2) one_question Summarize_conversation silent_model
        \<lparr>messages = six_messages @ [stored Human ''q4'' ''u'', stored AI ''ok'' ''r''],
         summary = Some ''old''\<rparr>
       = Inr \<lparr>messages = [stored Human ''q4'' ''u'', stored AI ''ok'' ''r''], summary = Some []\<rparr>
   \<and> call_model_prompt
        \<lparr>messages = [stored Human ''q4'' ''u'', stored AI ''ok'' ''r''], summary = Some []\<rparr>
       = [stored Human ''q4'' ''u'', stored AI ''ok'' ''r'']
   \<and> call_model_prompt
        \<lparr>messages = [stored Human ''q4'' ''u'', stored AI ''ok'' ''r''], summary = Some []\<rparr>
       \<noteq> SystemMessage (''Summary of conversation earlier: '' @ [])
           # [stored Human ''q4'' ''u'', stored AI ''ok'' ''r'']"
  by (simp add: run_defs silent_model_def)

text \<open>
  Claim C5, amended. The node \<^verbatim>\<open>conversation\<close> sends the oracle the stored messages,
  preceded by one system message \<^verbatim>\<open>Summary of conversation earlier: {summary}\<close> exactly
  when the state has a summary that is not the empty text; when the summary is absent
  or empty it sends the messages unmodified. It writes the reply and nothing else: the
  synthesized system message is not appended to the persisted messages, which hold no
  more system messages after the step than before, and none whose content was not
  already stored.
\<close>

theorem oracle_input_of_a_turn:
  "run_step uuid4 inp Conversation model st =
     (case model (case summary st of
                    None \<Rightarrow> messages st
                  | Some s \<Rightarrow>
                      if s = [] then messages st
                      else \<lparr>role = System, content = ''Summary of conversation earlier: '' @ s,
                            msg_id = None\<rparr> # messages st) of
        Inl e \<Rightarrow> Inl e
      | Inr (reply, rid) \<Rightarrow>
          apply_writes uuid4 st \<lparr>upd_messages = [AIMessage reply rid], upd_summary = None\<rparr>)
   \<and> (\<forall>st'. run_step uuid4 inp Conversation model st = Inr st' \<longrightarrow>
         length (filter (\<lambda>m. role m = System) (messages st'))
           \<le> length (filter (\<lambda>m. role m = System) (messages st))
         \<and> (\<forall>m \<in> set (messages st'). role m = System \<longrightarrow>
               (\<exists>m0 \<in> set (messages st). role m0 = System \<and> content m0 = content m)))"
proof -
  have sent: "run_step uuid4 inp Conversation model st =
     (case model (case summary st of
                    None \<Rightarrow> messages st
                  | Some s \<Rightarrow>
                      if s = [] then messages st
                      else \<lparr>role = System, content = ''Summary of conversation earlier: '' @ s,
                            msg_id = None\<rparr> # messages st) of
        Inl e \<Rightarrow> Inl e
      | Inr (reply, rid) \<Rightarrow>
          apply_writes uuid4 st \<lparr>upd_messages = [AIMessage reply rid], upd_summary = None\<rparr>)"
    by (simp add: run_step_def call_model_def call_model_prompt_def model_invoke_def
          get_summary_def SystemMessage_def split: sum.splits option.splits prod.splits)
  have kept: "length (filter (\<lambda>m. role m = System) (messages st'))
           \<le> length (filter (\<lambda>m. role m = System) (messages st))
         \<and> (\<forall>m \<in> set (messages st'). role m = System \<longrightarrow>
               (\<exists>m0 \<in> set (messages st). role m0 = System \<and> content m0 = content m))"
    if "run_step uuid4 inp Conversation model st = Inr st'" for st'
  proof -
    from that obtain reply rid where
      "add_messages uuid4 (messages st) [AIMessage reply rid] = Inr (messages st')"
      by (auto simp: run_step_def call_model_def model_invoke_def apply_writes_def
            split: sum.splits prod.splits)
    then show ?thesis
      by (rule conversation_writes_no_system)
  qed
  from sent kept show ?thesis by blast
qed

theorem oracle_input_of_a_turn_witness:
  "run_step (fixed_uuid4 1) one_question Conversation probe_model
     \<lparr>messages = six_messages @ [stored Human ''q4'' ''u''], summary = Some ''old''\<rparr>
   = apply_writes (fixed_uuid4 1)
       \<lparr>messages = six_messages @ [stored Human ''q4'' ''u''], summary = Some ''old''\<rparr>
       \<lparr>upd_messages = [AIMessage ''Summary of conversation earlier: old'' (Some ''r'')],
        upd_summary = None\<rparr>
   \<and> run_step (fixed_uuid4 1) one_question Conversation probe_model
     \<lparr>messages = six_messages @ [stored Human ''q4'' ''u''], summary = Some ''old''\<rparr>
   = Inr \<lparr>messages = six_messages
             @ [stored Human ''q4'' ''u'', stored AI ''Summary of conversation earlier: old'' ''r''],
          summary = Some ''old''\<rparr>
   \<and> length (filter (\<lambda>m. role m = System)
        (messages \<lparr>messages = six_messages
             @ [stored Human ''q4'' ''u'', stored AI ''Summary of conversation earlier: old'' ''r''],
          summary = Some ''old''\<rparr>))
       \<le> length (filter (\<lambda>m. role m = System)
            (messages \<lparr>messages = six_messages @ [stored Human ''q4'' ''u''], summary = Some ''old''\<rparr>))"
proof -
  note inst = oracle_input_of_a_turn [of "fixed_uuid4 1" one_question probe_model
      "\<lparr>messages = six_messages @ [stored Human ''q4'' ''u''], summary = Some ''old''\<rparr>"]
  from inst have a: "run_step (fixed_uuid4 1) one_question Conversation probe_model
     \<lparr>messages = six_messages @ [stored Human ''q4'' ''u''], summary = Some ''old''\<rparr>
   = apply_writes (fixed_uuid4 1)
       \<lparr>messages = six_messages @ [stored Human ''q4'' ''u''], summary = Some ''old''\<rparr>
       \<lparr>upd_messages = [AIMessage ''Summary of conversation earlier: old'' (Some ''r'')],
        upd_summary = None\<rparr>"
    by (simp add: probe_model_def)
  from inst have "\<forall>st'. run_step (fixed_uuid4 1) one_question Conversation probe_model
           \<lparr>messages = six_messages @ [stored Human ''q4'' ''u''], summary = Some ''old''\<rparr> = Inr st'
         \<longrightarrow> length (filter (\<lambda>m. role m = System) (messages st'))
           \<le> length (filter (\<lambda>m. role m = System)
                (messages \<lparr>messages = six_messages @ [stored Human ''q4'' ''u''], summary = Some ''old''\<rparr>))
         \<and> (\<forall>m \<in> set (messages st'). role m = System \<longrightarrow>
               (\<exists>m0 \<in> set (messages \<lparr>messages = six_messages @ [stored Human ''q4'' ''u''], summary = Some ''old''\<rparr>).
                  role m0 = System \<and> content m0 = content m))"
    by (rule conjunct2)
  from this [rule_format, OF probe_one_thread, THEN conjunct1]
  have c: "length (filter (\<lambda>m. role m = System)
        (messages \<lparr>messages = six_messages
             @ [stored Human ''q4'' ''u'', stored AI ''Summary of conversation earlier: old'' ''r''],
          summary = Some ''old''\<rparr>))
       \<le> length (filter (\<lambda>m. role m = System)
            (messages \<lparr>messages = six_messages @ [stored Human ''q4'' ''u''], summary = Some ''old''\<rparr>))" .
  from a probe_one_thread c show ?thesis
    by (intro conjI)
qed

section \<open>A turn in which the oracle fails\<close>

text \<open>
  Claim C4 says that a turn in which the oracle fails leaves the persisted state of the
  thread as it was before the turn. It does not: the checkpointer has saved the state
  after the step that applied the input, so the human message is persisted without a
  reply.
\<close>

theorem failed_turn_counterexample:
  "no_thread ''t1'' = None
   \<and> failing_model (call_model_prompt \<lparr>messages = [stored Human ''q4'' ''u''], summary = None\<rparr>)
       = Inl (Exception ''OracleError'' ''down'')
   \<and> fst (invoke fixed_uuid4 failing_model no_thread ''t1'' one_question)
       = Inl (HTTPException 500 ''down'')
   \<and> snd (invoke fixed_uuid4 failing_model no_thread ''t1'' one_question) ''t1''
       = Some \<lparr>messages = [stored Human ''q4'' ''u''], summary = None\<rparr>
   \<and> snd (invoke fixed_uuid4 failing_model no_thread ''t1'' one_question) \<noteq> no_thread"
proof -
  have i: "invoke fixed_uuid4 failing_model no_thread ''t1'' one_question
      = (Inl (HTTPException 500 ''down''),
         no_thread(''t1'' \<mapsto> \<lparr>messages = [stored Human ''q4'' ''u''], summary = None\<rparr>))"
    by (simp add: invoke_def compiled_graph_invoke_unfold run_defs)
  have "(no_thread(''t1'' \<mapsto> \<lparr>messages = [stored Human ''q4'' ''u''], summary = None\<rparr>)) ''t1''
          \<noteq> no_thread ''t1''"
    by (simp add: no_thread_def)
  then have "no_thread(''t1'' \<mapsto> \<lparr>messages = [stored Human ''q4'' ''u''], summary = None\<rparr>) \<noteq> no_thread"
    by metis
  then show ?thesis
    by (simp add: i) (simp add: no_thread_def failing_model_def)
qed

text \<open>
  Claim C4, amended. A turn in which the oracle fails does fail as a whole: the service
  answers with the error. The persisted state of the thread is the checkpoint of the last
  step that completed: when the oracle fails on the conversation, the state with the
  input applied and no reply; when it fails on the compaction, the state with the input
  and the reply, not compacted, with the summary it had. No other thread is changed.
\<close>

theorem failed_turn_keeps_checkpoint:
  assumes "run_step (uuid4 0) inp START model
             (case saved tid of None \<Rightarrow> empty_state | Some st \<Rightarrow> st) = Inr st1"
  shows "(model (call_model_prompt st1) = Inl e \<longrightarrow>
            invoke uuid4 model saved tid inp
              = (Inl (HTTPException 500 (str_exn e)), saved(tid \<mapsto> st1)))
       \<and> (\<forall>mid. run_step (uuid4 1) inp Conversation model st1 = Inr mid
              \<longrightarrow> length (messages mid) > 6
              \<longrightarrow> model (summarize_prompt mid) = Inl e
              \<longrightarrow> invoke uuid4 model saved tid inp
                    = (Inl (HTTPException 500 (str_exn e)), saved(tid \<mapsto> mid)))"
proof -
  have a: "run_step (uuid4 1) inp Conversation model st1 = Inl e"
    if "model (call_model_prompt st1) = Inl e"
    using that by (simp add: run_step_def call_model_def model_invoke_def)
  have b: "run_step (uuid4 2) inp Summarize_conversation model mid = Inl e"
    if "model (summarize_prompt mid) = Inl e" for mid
    using that by (simp add: run_step_def summarize_conversation_def model_invoke_def)
  show ?thesis
    using assms a b
    by (auto simp: invoke_def compiled_graph_invoke_unfold Let_def)
qed

theorem failed_turn_keeps_checkpoint_witness:
  "failing_model (call_model_prompt \<lparr>messages = [stored Human ''q4'' ''u''], summary = None\<rparr>)
       = Inl (Exception ''OracleError'' ''down'')
   \<and> invoke fixed_uuid4 failing_model no_thread ''t1'' one_question
       = (Inl (HTTPException 500 ''down''),
          no_thread(''t1'' \<mapsto> \<lparr>messages = [stored Human ''q4'' ''u''], summary = None\<rparr>))
   \<and> length (messages \<lparr>messages = six_messages @ [stored Human ''q4'' ''u'', stored AI ''ok'' ''r''],
                        summary = Some ''old''\<rparr>) > 6
   \<and> no_summary_model (summarize_prompt
         \<lparr>messages = six_messages @ [stored Human ''q4'' ''u'', stored AI ''ok'' ''r''],
          summary = Some ''old''\<rparr>) = Inl (Exception ''OracleError'' ''down'')
   \<and> invoke fixed_uuid4 no_summary_model one_thread ''t1'' one_question
       = (Inl (HTTPException 500 ''down''),
          one_thread(''t1'' \<mapsto>
            \<lparr>messages = six_messages @ [stored Human ''q4'' ''u'', stored AI ''ok'' ''r''],
             summary = Some ''old''\<rparr>))"
proof -
  have f: "failing_model (call_model_prompt \<lparr>messages = [stored Human ''q4'' ''u''], summary = None\<rparr>)
       = Inl (Exception ''OracleError'' ''down'')"
    by (simp add: failing_model_def)
  have r: "run_step (fixed_uuid4 1) one_question Conversation no_summary_model
       \<lparr>messages = six_messages @ [stored Human ''q4'' ''u''], summary = Some ''old''\<rparr>
     = Inr \<lparr>messages = six_messages @ [stored Human ''q4'' ''u'', stored AI ''ok'' ''r''],
            summary = Some ''old''\<rparr>"
    by (simp add: run_defs)
  have l: "length (messages \<lparr>messages = six_messages @ [stored Human ''q4'' ''u'', stored AI ''ok'' ''r''],
                        summary = Some ''old''\<rparr>) > 6"
    by (simp add: six_messages_def)
  have s: "no_summary_model (summarize_prompt
         \<lparr>messages = six_messages @ [stored Human ''q4'' ''u'', stored AI ''ok'' ''r''],
          summary = Some ''old''\<rparr>) = Inl (Exception ''OracleError'' ''down'')"
    by (simp add: no_summary_model_def summarize_prompt_def HumanMessage_def)
  from failed_turn_keeps_checkpoint [of fixed_uuid4 one_question failing_model no_thread "''t1''",
      OF start_no_thread, of "Exception ''OracleError'' ''down''"] f
  have one: "invoke fixed_uuid4 failing_model no_thread ''t1'' one_question
       = (Inl (HTTPException 500 ''down''),
          no_thread(''t1'' \<mapsto> \<lparr>messages = [stored Human ''q4'' ''u''], summary = None\<rparr>))"
    by simp
  from failed_turn_keeps_checkpoint [of fixed_uuid4 one_question no_summary_model one_thread "''t1''",
      OF start_one_thread, of "Exception ''OracleError'' ''down''"] r l s
  have two: "invoke fixed_uuid4 no_summary_model one_thread ''t1'' one_question
       = (Inl (HTTPException 500 ''down''),
          one_thread(''t1'' \<mapsto>
            \<lparr>messages = six_messages @ [stored Human ''q4'' ''u'', stored AI ''ok'' ''r''],
             summary = Some ''old''\<rparr>))"
    by simp
  from f l s one two show ?thesis by blast
qed

section \<open>The state of a thread that has none\<close>

text \<open>
  Claim C7. For a thread id that has no saved state, \<^verbatim>\<open>get_thread_state\<close> answers with
  no messages and the empty summary; it does so too when the library's \<^verbatim>\<open>get_state\<close>
  raises, and it raises in no case.
\<close>

theorem get_state_of_unknown_thread:
  "(saved tid = None \<longrightarrow>
      get_thread_state (compiled_graph_get_state saved tid)
        = Inr \<lparr>ts_messages = [], ts_summary = []\<rparr>)
   \<and> get_thread_state (Inl e) = Inr \<lparr>ts_messages = [], ts_summary = []\<rparr>
   \<and> (\<exists>answer. get_thread_state snapshot = Inr answer)"
  by (simp add: get_thread_state_def compiled_graph_get_state_def serialize_messages_def
        split: sum.splits)

theorem get_state_of_unknown_thread_witness:
  "no_thread ''never-seen'' = None
   \<and> get_thread_state (compiled_graph_get_state no_thread ''never-seen'')
       = Inr \<lparr>ts_messages = [], ts_summary = []\<rparr>"
  using get_state_of_unknown_thread [of no_thread "''never-seen''"]
  by (simp add: no_thread_def)

section \<open>Deleting a thread\<close>

text \<open>
  Claim C8 is what \<^verbatim>\<open>server.py\<close> documents (line 9: delete saved thread state), and
  the code misses it: \<^verbatim>\<open>delete_thread\<close> calls \<^verbatim>\<open>memory.delete_state\<close>, which the saver
  that \<^verbatim>\<open>graph.py\<close> wires up does not have. The call raises, the \<^verbatim>\<open>except\<close> branch
  answers with HTTP 500 although the saver is wired up, and the state of the thread is
  still there afterwards.
\<close>

theorem delete_thread_erases_nothing:
  "delete_thread (Some memory_saver) ''t1'' one_thread
     = (Inl (HTTPException 500
               ([CHR 0x27] @ ''MemorySaver'' @ [CHR 0x27] @ '' object has no attribute ''
                  @ [CHR 0x27] @ ''delete_state'' @ [CHR 0x27])),
        one_thread)
   \<and> get_thread_state (compiled_graph_get_state
         (snd (delete_thread (Some memory_saver) ''t1'' one_thread)) ''t1'')
       = Inr \<lparr>ts_messages =
                 [\<lparr>type_field = Str ''human'', content_field = ''q1''\<rparr>,
                  \<lparr>type_field = Str ''ai'', content_field = ''a1''\<rparr>,
                  \<lparr>type_field = Str ''human'', content_field = ''q2''\<rparr>,
                  \<lparr>type_field = Str ''ai'', content_field = ''a2''\<rparr>,
                  \<lparr>type_field = Str ''human'', content_field = ''q3''\<rparr>,
                  \<lparr>type_field = Str ''ai'', content_field = ''a3''\<rparr>],
              ts_summary = ''old''\<rparr>"
  by (simp add: delete_thread_def memory_saver_def get_thread_state_def
        compiled_graph_get_state_def serialize_messages_def serialize_message_def
        message_object_def one_thread_def six_messages_def stored_def)

section \<open>stream and invoke\<close>

text \<open>
  Claim C9 holds for every request that has a message (next theorem but one), and fails
  for the request with none: \<^verbatim>\<open>invoke\<close> runs the graph on the stored messages and
  returns the turn, \<^verbatim>\<open>stream\<close> raises \<^verbatim>\<open>IndexError\<close> in the debug print of line 138
  before the graph is run, yields the two lines of an error event, and leaves the store
  as it was.
\<close>

theorem stream_differs_on_empty_request:
  "stream fixed_uuid4 echo_model short_thread ''t1'' []
     = ([Event_line ''error'', Data_line (Err ''list index out of range'')], short_thread)
   \<and> invoke fixed_uuid4 echo_model short_thread ''t1'' []
     = (Inr \<lparr>resp_messages =
               [\<lparr>type_field = Str ''human'', content_field = ''q1''\<rparr>,
                \<lparr>type_field = Str ''ai'', content_field = ''a1''\<rparr>,
                \<lparr>type_field = Str ''ai'', content_field = ''ok''\<rparr>],
             resp_state = []\<rparr>,
        short_thread(''t1'' \<mapsto>
          \<lparr>messages = two_messages @ [stored AI ''ok'' ''r''], summary = None\<rparr>))"
  by (simp add: stream_def invoke_def compiled_graph_invoke_unfold run_defs short_thread_def
        two_messages_def serialize_messages_def serialize_message_def message_object_def)

text \<open>
  For a request that has a message, the generator of \<^verbatim>\<open>stream\<close> yields exactly the two
  lines of one event: those of the message event, whose data are the messages and state
  that \<^verbatim>\<open>invoke\<close> returns, or, when \<^verbatim>\<open>invoke\<close> fails, those of the error event, whose
  data is the detail of its error; and it leaves the same store.
\<close>

theorem stream_delivers_invoke:
  "req \<noteq> [] \<Longrightarrow>
   stream uuid4 model saved tid req =
     (case fst (invoke uuid4 model saved tid req) of
        Inl (HTTPException code detail) \<Rightarrow> [Event_line ''error'', Data_line (Err detail)]
      | Inr resp \<Rightarrow>
          [Event_line ''message'',
           Data_line
             (Data \<lparr>data_node = ''conversation'', data_messages = resp_messages resp,
                    data_state = resp_state resp\<rparr>)],
      snd (invoke uuid4 model saved tid req))"
  by (simp add: stream_def invoke_def Let_def split: sum.splits)

theorem stream_delivers_invoke_witness:
  "one_question \<noteq> []
   \<and> stream fixed_uuid4 echo_model no_thread ''t1'' one_question
       = ([Event_line ''message'',
           Data_line
             (Data
                \<lparr>data_node = ''conversation'',
                 data_messages =
                   [\<lparr>type_field = Str ''human'', content_field = ''q4''\<rparr>,
                    \<lparr>type_field = Str ''ai'', content_field = ''ok''\<rparr>],
                 data_state = []\<rparr>)],
          no_thread(''t1'' \<mapsto>
            \<lparr>messages = [stored Human ''q4'' ''u'', stored AI ''ok'' ''r''], summary = None\<rparr>))"
proof -
  have q: "one_question \<noteq> []"
    by (simp add: one_question_def)
  have i: "invoke fixed_uuid4 echo_model no_thread ''t1'' one_question
     = (Inr \<lparr>resp_messages =
               [\<lparr>type_field = Str ''human'', content_field = ''q4''\<rparr>,
                \<lparr>type_field = Str ''ai'', content_field = ''ok''\<rparr>],
             resp_state = []\<rparr>,
        no_thread(''t1'' \<mapsto>
          \<lparr>messages = [stored Human ''q4'' ''u'', stored AI ''ok'' ''r''], summary = None\<rparr>))"
    by (simp add: invoke_def compiled_graph_invoke_unfold run_defs serialize_messages_def
          serialize_message_def message_object_def)
  from stream_delivers_invoke [OF q, of fixed_uuid4 echo_model no_thread "''t1''"] q
  show ?thesis
    by (simp add: i)
qed

section \<open>Serialization of a message\<close>

text \<open>
  Claim C10 says that \<^verbatim>\<open>_serialize_message\<close> never outputs the type "system". For a
  mapping it outputs the mapping's own type field, "system" included.
\<close>

theorem serialize_message_counterexample:
  "serialize_message (Dict [(''type'', Str ''system''), (''content'', Str ''be brief'')])
     = \<lparr>type_field = Str ''system'', content_field = ''be brief''\<rparr>"
  by (simp add: serialize_message_def)

text \<open>
  Claim C10, amended. \<^verbatim>\<open>_serialize_message\<close> is total. An object with a content
  attribute is given the type "ai" exactly when its class is \<^verbatim>\<open>AIMessage\<close> and "human"
  otherwise, with the text of its content; a mapping is given its own type field,
  "human" when it has none, with the text of its content field (the empty text when it
  has none); any other value is given the type "human" and its own text. The type
  "system" is never output for an object or a value that is no mapping, and is output
  for a mapping exactly when that is its own type field.
\<close>

theorem serialize_message_cases:
  "serialize_message (Object cls c)
     = \<lparr>type_field = Str (if cls = ''AIMessage'' then ''ai'' else ''human''),
        content_field = py_str c\<rparr>
   \<and> type_field (serialize_message (Dict items))
       = (case map_of items ''type'' of None \<Rightarrow> Str ''human'' | Some t \<Rightarrow> t)
   \<and> content_field (serialize_message (Dict items))
       = py_str (case map_of items ''content'' of None \<Rightarrow> Str [] | Some v \<Rightarrow> v)
   \<and> serialize_message (Plain v) = \<lparr>type_field = Str ''human'', content_field = py_str v\<rparr>
   \<and> type_field (serialize_message (Object cls c)) \<noteq> Str ''system''
   \<and> type_field (serialize_message (Plain v)) \<noteq> Str ''system''
   \<and> (type_field (serialize_message (Dict items)) = Str ''system''
        \<longleftrightarrow> map_of items ''type'' = Some (Str ''system''))"
  by (simp add: serialize_message_def split: option.splits)

section \<open>The invariant on ids\<close>

text \<open>
  Every step of a run keeps the invariant that Claim C2 assumes: from a state whose
  stored messages have unique ids, a step that completes returns such a state.
\<close>

theorem run_step_keeps_ids_unique:
  "ids_unique (messages st) \<Longrightarrow> run_step uuid4 inp n model st = Inr st'
   \<Longrightarrow> ids_unique (messages st')"
  by (auto simp: run_step_def apply_writes_def split: sum.splits dest: add_messages_ids_unique)

theorem run_step_keeps_ids_unique_witness:
  "ids_unique (messages \<lparr>messages = six_messages @ [stored Human ''q4'' ''u''], summary = Some ''old''\<rparr>)
   \<and> run_step (fixed_uuid4 1) one_question Conversation echo_model
       \<lparr>messages = six_messages @ [stored Human ''q4'' ''u''], summary = Some ''old''\<rparr>
     = Inr \<lparr>messages = six_messages @ [stored Human ''q4'' ''u'', stored AI ''ok'' ''r''],
            summary = Some ''old''\<rparr>
   \<and> ids_unique (six_messages @ [stored Human ''q4'' ''u'', stored AI ''ok'' ''r''])"
proof -
  have u: "ids_unique (messages \<lparr>messages = six_messages @ [stored Human ''q4'' ''u''],
                                 summary = Some ''old''\<rparr>)"
    by (simp add: ids_unique_def six_messages_def stored_def)
  from run_step_keeps_ids_unique [OF u reply_one_thread] u reply_one_thread
  show ?thesis by simp
qed

end
